theory Spec2Isabelle
  imports Main "HOL-Library.Word"
begin

unbundle bit_operations_syntax

section \<open>Data model\<close>

text \<open>Go's \<open>byte\<close> and \<open>int64\<close>. A Go string is a sequence of bytes, here a \<open>string\<close>.\<close>

type_synonym byte = "8 word"
type_synonym int64 = "64 word"

text \<open>The conversions \<open>[]byte(s)\<close> and \<open>string(b)\<close> between the two, byte by byte.\<close>

definition byte_char :: "byte \<Rightarrow> char" where
  "byte_char b =
     Char (bit b 0) (bit b 1) (bit b 2) (bit b 3) (bit b 4) (bit b 5) (bit b 6) (bit b 7)"

definition char_byte :: "char \<Rightarrow> byte" where
  "char_byte c = of_char c"

section \<open>Library functions the source calls\<close>

text \<open>
  The functions of Go's standard library that the source calls, modelled from their
  documented behaviour on the inputs the source gives them.
\<close>

subsection \<open>strings\<close>

text \<open>
  \<open>strings.ReplaceAll(s, old, new)\<close> for a pattern of one ASCII character, the only way
  the source calls it: every byte equal to \<open>old\<close> becomes \<open>new\<close>.
\<close>

fun ReplaceAll :: "string \<Rightarrow> char \<Rightarrow> string \<Rightarrow> string" where
  "ReplaceAll [] old new = []"
| "ReplaceAll (c # cs) old new = (if c = old then new else [c]) @ ReplaceAll cs old new"

text \<open>
  \<open>strings.Split(s, sep)\<close> for a separator of one ASCII character: the pieces between
  the separators, so one piece more than there are separators (the empty string gives
  one empty piece). \<open>cur\<close> is the piece being read.
\<close>

fun Split_from :: "string \<Rightarrow> string \<Rightarrow> char \<Rightarrow> string list" where
  "Split_from cur [] sep = [cur]"
| "Split_from cur (c # cs) sep =
     (if c = sep then cur # Split_from [] cs sep else Split_from (cur @ [c]) cs sep)"

definition Split :: "string \<Rightarrow> char \<Rightarrow> string list" where
  "Split s sep = Split_from [] s sep"

subsection \<open>encoding/base64, the standard encoding\<close>

definition encodeStd :: string where
  "encodeStd = ''ABCDEFGHIJKLMNOPQRSTUVWXYZabcdefghijklmnopqrstuvwxyz0123456789+/''"

definition StdPadding :: char where
  "StdPadding = CHR ''=''"

text \<open>The character of a six-bit value: \<open>enc.encode[v & 0x3F]\<close>.\<close>

definition enc6 :: "32 word \<Rightarrow> char" where
  "enc6 v = encodeStd ! unat (v AND 0x3F)"

text \<open>
  \<open>StdEncoding.EncodeToString\<close>: three bytes are packed into 24 bits and written as four
  characters; a remainder of one or two bytes is written as two or three characters and
  padded with \<open>=\<close> to four.
\<close>

fun EncodeToString :: "byte list \<Rightarrow> string" where
  "EncodeToString [] = []"
| "EncodeToString [a] =
     (let val = push_bit 16 (ucast a :: 32 word)
      in [enc6 (drop_bit 18 val), enc6 (drop_bit 12 val), StdPadding, StdPadding])"
| "EncodeToString [a, b] =
     (let val = push_bit 16 (ucast a :: 32 word) OR push_bit 8 (ucast b)
      in [enc6 (drop_bit 18 val), enc6 (drop_bit 12 val), enc6 (drop_bit 6 val), StdPadding])"
| "EncodeToString (a # b # c # rest) =
     (let val = push_bit 16 (ucast a :: 32 word) OR push_bit 8 (ucast b) OR ucast c
      in [enc6 (drop_bit 18 val), enc6 (drop_bit 12 val), enc6 (drop_bit 6 val), enc6 val]
         @ EncodeToString rest)"


subsection \<open>crypto/sha256\<close>

text \<open>
  SHA-256 as \<open>crypto/sha256\<close> computes it (FIPS 180-4), on 32-bit words whose addition
  wraps: the round constants (the table \<open>_K\<close> of the source, in decimal), the initial
  hash value, the message schedule, the 64 rounds on one 64-byte block, the padding of
  \<open>checkSum\<close> and the big-endian output.
\<close>

definition K256 :: "32 word list" where
  "K256 =
    [1116352408, 1899447441, 3049323471, 3921009573, 961987163, 1508970993,
     2453635748, 2870763221, 3624381080, 310598401, 607225278, 1426881987,
     1925078388, 2162078206, 2614888103, 3248222580, 3835390401, 4022224774,
     264347078, 604807628, 770255983, 1249150122, 1555081692, 1996064986,
     2554220882, 2821834349, 2952996808, 3210313671, 3336571891, 3584528711,
     113926993, 338241895, 666307205, 773529912, 1294757372, 1396182291,
     1695183700, 1986661051, 2177026350, 2456956037, 2730485921, 2820302411,
     3259730800, 3345764771, 3516065817, 3600352804, 4094571909, 275423344,
     430227734, 506948616, 659060556, 883997877, 958139571, 1322822218,
     1537002063, 1747873779, 1955562222, 2024104815, 2227730452, 2361852424,
     2428436474, 2756734187, 3204031479, 3329325298]"

type_synonym sha256_state =
  "32 word \<times> 32 word \<times> 32 word \<times> 32 word \<times> 32 word \<times> 32 word \<times> 32 word \<times> 32 word"

definition init256 :: sha256_state where
  "init256 = (0x6a09e667, 0xbb67ae85, 0x3c6ef372, 0xa54ff53a, 0x510e527f, 0x9b05688c, 0x1f83d9ab, 0x5be0cd19)"

definition be32 :: "byte list \<Rightarrow> 32 word" where
  "be32 p = push_bit 24 (ucast (p ! 0)) OR push_bit 16 (ucast (p ! 1)) OR
            push_bit 8 (ucast (p ! 2)) OR ucast (p ! 3)"

definition bytes32 :: "32 word \<Rightarrow> byte list" where
  "bytes32 w = [ucast (drop_bit 24 w), ucast (drop_bit 16 w), ucast (drop_bit 8 w), ucast w]"

definition bytes64 :: "64 word \<Rightarrow> byte list" where
  "bytes64 w = [ucast (drop_bit 56 w), ucast (drop_bit 48 w), ucast (drop_bit 40 w),
                ucast (drop_bit 32 w), ucast (drop_bit 24 w), ucast (drop_bit 16 w),
                ucast (drop_bit 8 w), ucast w]"

text \<open>The schedule: the 16 words of the block, extended one word at a time to 64.\<close>

fun extend_w :: "nat \<Rightarrow> 32 word list \<Rightarrow> 32 word list" where
  "extend_w 0 w = w"
| "extend_w (Suc n) w =
     (let i = length w;
          v1 = w ! (i - 2);
          t1 = word_rotr 17 v1 XOR word_rotr 19 v1 XOR drop_bit 10 v1;
          v2 = w ! (i - 15);
          t2 = word_rotr 7 v2 XOR word_rotr 18 v2 XOR drop_bit 3 v2
      in extend_w n (w @ [t1 + w ! (i - 7) + t2 + w ! (i - 16)]))"

definition schedule :: "byte list \<Rightarrow> 32 word list" where
  "schedule p = extend_w 48 (map (\<lambda>i. be32 (take 4 (drop (4 * i) p))) [0..<16])"

fun round256 :: "32 word \<times> 32 word \<Rightarrow> sha256_state \<Rightarrow> sha256_state" where
  "round256 (k, w) (a, b, c, d, e, f, g, h) =
     (let t1 = h + (word_rotr 6 e XOR word_rotr 11 e XOR word_rotr 25 e) +
               ((e AND f) XOR (NOT e AND g)) + k + w;
          t2 = (word_rotr 2 a XOR word_rotr 13 a XOR word_rotr 22 a) +
               ((a AND b) XOR (a AND c) XOR (b AND c))
      in (t1 + t2, a, b, c, d + t1, e, f, g))"

fun add_state :: "sha256_state \<Rightarrow> sha256_state \<Rightarrow> sha256_state" where
  "add_state (h0, h1, h2, h3, h4, h5, h6, h7) (a, b, c, d, e, f, g, h) =
     (h0 + a, h1 + b, h2 + c, h3 + d, h4 + e, h5 + f, h6 + g, h7 + h)"

definition block256 :: "sha256_state \<Rightarrow> byte list \<Rightarrow> sha256_state" where
  "block256 st p = add_state st (fold round256 (zip K256 (schedule p)) st)"

text \<open>\<open>n\<close> blocks of 64 bytes from the front of \<open>p\<close>.\<close>

fun blocks256 :: "nat \<Rightarrow> sha256_state \<Rightarrow> byte list \<Rightarrow> sha256_state" where
  "blocks256 0 st p = st"
| "blocks256 (Suc n) st p = blocks256 n (block256 st (take 64 p)) (drop 64 p)"

text \<open>
  The padding: \<open>0x80\<close>, zeros up to 56 modulo 64, and the length in bits as a
  64-bit big-endian number (the shift \<open>len <<= 3\<close> wraps at 64 bits).
\<close>

definition pad256 :: "nat \<Rightarrow> byte list" where
  "pad256 len =
     (let t = (if len mod 64 < 56 then 56 - len mod 64 else 64 + 56 - len mod 64)
      in 0x80 # replicate (t - 1) 0 @ bytes64 (push_bit 3 (of_nat len)))"

fun state_bytes :: "sha256_state \<Rightarrow> byte list" where
  "state_bytes (h0, h1, h2, h3, h4, h5, h6, h7) =
     bytes32 h0 @ bytes32 h1 @ bytes32 h2 @ bytes32 h3 @
     bytes32 h4 @ bytes32 h5 @ bytes32 h6 @ bytes32 h7"

definition sha256 :: "byte list \<Rightarrow> byte list" where
  "sha256 msg =
     (let p = msg @ pad256 (length msg)
      in state_bytes (blocks256 (length p div 64) init256 p))"

text \<open>
  The \<open>hash.Hash\<close> made by \<open>sha256.New()\<close>, as the bytes written to it so far:
  \<open>Write\<close> appends, and \<open>Sum(b)\<close> appends the digest of what was written to \<open>b\<close>.
\<close>

type_synonym hash_state = "byte list"

definition sha256_New :: hash_state where
  "sha256_New = []"

definition hash_Write :: "hash_state \<Rightarrow> byte list \<Rightarrow> hash_state" where
  "hash_Write h p = h @ p"

definition hash_Sum :: "hash_state \<Rightarrow> byte list \<Rightarrow> byte list" where
  "hash_Sum h b = b @ sha256 h"



text \<open>
  The decoding table \<open>decodeMap\<close>: the position of a character in the alphabet, and
  nothing (\<open>0xff\<close> in the source) for every other byte.
\<close>

fun index_of :: "char \<Rightarrow> string \<Rightarrow> nat option" where
  "index_of c [] = None"
| "index_of c (x # xs) = (if x = c then Some 0 else map_option Suc (index_of c xs))"

definition decodeMap :: "char \<Rightarrow> 32 word option" where
  "decodeMap c = map_option of_nat (index_of c encodeStd)"

datatype base64_error = CorruptInputError

text \<open>
  The bytes of a quantum of four six-bit values: \<open>val\<close> packs them into 24 bits, and the
  bytes are \<open>val >> 16\<close>, \<open>val >> 8\<close> and \<open>val\<close>, each cut to eight bits.
\<close>

definition quantum_val :: "32 word \<Rightarrow> 32 word \<Rightarrow> 32 word \<Rightarrow> 32 word \<Rightarrow> 32 word" where
  "quantum_val d0 d1 d2 d3 = push_bit 18 d0 OR push_bit 12 d1 OR push_bit 6 d2 OR d3"

text \<open>
  The quanta of \<open>Decode\<close>, on input without line breaks. A quantum is four characters
  of the alphabet, or at the very end two characters and \<open>==\<close>, or three and \<open>=\<close>.
  Everything else is corrupt input: a character outside the alphabet, padding in the
  wrong place, anything after the padding, and an incomplete last quantum. The standard
  encoding is not strict, so the bits of a padded quantum that belong to no byte are
  ignored. The offset that the source's error carries is left out.
\<close>

fun decode_quanta :: "string \<Rightarrow> base64_error + byte list" where
  "decode_quanta [] = Inr []"
| "decode_quanta (c0 # c1 # c2 # c3 # rest) =
     (case (decodeMap c0, decodeMap c1) of
        (Some d0, Some d1) \<Rightarrow>
          (if c2 = StdPadding then
             (if c3 = StdPadding \<and> rest = []
              then Inr [ucast (drop_bit 16 (quantum_val d0 d1 0 0))]
              else Inl CorruptInputError)
           else
             (case decodeMap c2 of
                None \<Rightarrow> Inl CorruptInputError
              | Some d2 \<Rightarrow>
                  (if c3 = StdPadding then
                     (if rest = []
                      then Inr [ucast (drop_bit 16 (quantum_val d0 d1 d2 0)),
                                ucast (drop_bit 8 (quantum_val d0 d1 d2 0))]
                      else Inl CorruptInputError)
                   else
                     (case decodeMap c3 of
                        None \<Rightarrow> Inl CorruptInputError
                      | Some d3 \<Rightarrow>
                          (case decode_quanta rest of
                             Inl e \<Rightarrow> Inl e
                           | Inr bs \<Rightarrow>
                               Inr (ucast (drop_bit 16 (quantum_val d0 d1 d2 d3)) #
                                    ucast (drop_bit 8 (quantum_val d0 d1 d2 d3)) #
                                    ucast (quantum_val d0 d1 d2 d3) # bs))))))
      | _ \<Rightarrow> Inl CorruptInputError)"
| "decode_quanta _ = Inl CorruptInputError"

text \<open>
  \<open>StdEncoding.DecodeString\<close>: carriage returns and line feeds are skipped wherever
  they stand, and the rest is decoded quantum by quantum.
\<close>

definition DecodeString :: "string \<Rightarrow> base64_error + byte list" where
  "DecodeString s = decode_quanta (filter (\<lambda>c. c \<noteq> CHR 0x0D \<and> c \<noteq> CHR 0x0A) s)"

section \<open>PKCE (internal/auth/pkce.go)\<close>

type_synonym PKCECodeVerifier = string
type_synonym PKCECodeChallenge = string

text \<open>
  \<open>GenerateCodeVerifier\<close>. The outcome of \<open>rand.Read\<close> on the slice of 32 bytes is the
  parameter: \<open>Inl err\<close> when the entropy source fails, \<open>Inr b\<close> with the filled slice
  otherwise.
\<close>

definition GenerateCodeVerifier :: "string + byte list \<Rightarrow> string + PKCECodeVerifier" where
  "GenerateCodeVerifier rand_Read =
     (case rand_Read of
        Inl err \<Rightarrow> Inl (''failed to generate random bytes: '' @ err)
      | Inr b \<Rightarrow>
          (let encoded = EncodeToString b;
               encoded = ReplaceAll encoded CHR ''+'' ''-'';
               encoded = ReplaceAll encoded CHR ''/'' ''_'';
               encoded = ReplaceAll encoded CHR ''='' []
           in Inr encoded))"

definition CreateCodeChallenge :: "PKCECodeVerifier \<Rightarrow> PKCECodeChallenge" where
  "CreateCodeChallenge v =
     (let h = sha256_New;
          h = hash_Write h (map char_byte v);
          hash = hash_Sum h [];
          encoded = EncodeToString hash;
          encoded = ReplaceAll encoded CHR ''+'' ''-'';
          encoded = ReplaceAll encoded CHR ''/'' ''_'';
          encoded = ReplaceAll encoded CHR ''='' []
      in encoded)"

definition VerifyCodeChallenge :: "PKCECodeVerifier \<Rightarrow> PKCECodeChallenge \<Rightarrow> bool" where
  "VerifyCodeChallenge verifier challenge \<longleftrightarrow> CreateCodeChallenge verifier = challenge"

text \<open>
  The alphabet of base64url (RFC 4648, section 5), and the unpadded base64url encoding
  of a byte sequence, for stating what the two functions above produce.
\<close>

definition encodeURL :: string where
  "encodeURL = ''ABCDEFGHIJKLMNOPQRSTUVWXYZabcdefghijklmnopqrstuvwxyz0123456789-_''"

definition url_char :: "char \<Rightarrow> char" where
  "url_char c = (if c = CHR ''+'' then CHR ''-'' else if c = CHR ''/'' then CHR ''_'' else c)"

definition base64url :: "byte list \<Rightarrow> string" where
  "base64url bs = map url_char (filter (\<lambda>c. c \<noteq> StdPadding) (EncodeToString bs))"

section \<open>ID tokens (internal/auth/token.go)\<close>

text \<open>The struct \<open>IDTokenClaims\<close>: the JSON-tagged claims and the three raw segments.\<close>

record IDTokenClaims =
  Issuer :: string
  Subject :: string
  Audience :: string
  Expiration :: int64
  IssuedAt :: int64
  Name :: string
  Email :: string
  EmailVerified :: bool
  Picture :: string
  GivenName :: string
  FamilyName :: string
  Locale :: string
  rawHeader :: string
  rawPayload :: string
  rawSignature :: string

subsection \<open>encoding/json, on flat objects\<close>

text \<open>
  \<open>json.Unmarshal\<close> into an \<open>IDTokenClaims\<close>, on the fragment of JSON that ID token
  payloads are written in: one object whose values are strings, integers, \<open>true\<close>,
  \<open>false\<close> or \<open>null\<close>. On that fragment the model follows the library; for every other
  input (nested values, fractions and exponents, Unicode escapes, bytes outside ASCII,
  and input that is not JSON) it answers \<open>NotModelled\<close> and says nothing about what the
  library does.
\<close>

text \<open>The tokens of the fragment.\<close>

datatype token =
    LBrace | RBrace | Colon | Comma
  | TString string | TInt int | TTrue | TFalse | TNull

text \<open>
  Where the scanner stands: between tokens; inside a string, with the characters read
  so far; after a backslash inside a string; inside a number, with its sign and digits;
  inside one of the words \<open>true\<close>, \<open>false\<close>, \<open>null\<close>, with the letters still expected.
\<close>

datatype lex_mode =
    Between
  | InString string
  | InEscape string
  | InNumber bool "int list"
  | InWord string token

definition is_space :: "char \<Rightarrow> bool" where
  "is_space c \<longleftrightarrow> c = CHR '' '' \<or> c = CHR 0x09 \<or> c = CHR 0x0A \<or> c = CHR 0x0D"

definition digit_of :: "char \<Rightarrow> int option" where
  "digit_of c =
     (let n = of_char c :: int in if 48 \<le> n \<and> n \<le> 57 then Some (n - 48) else None)"

text \<open>The digits of a number literal, most significant first: no leading zero.\<close>

fun number_token :: "bool \<Rightarrow> int list \<Rightarrow> token option" where
  "number_token neg [] = None"
| "number_token neg (d # ds) =
     (if d = 0 \<and> ds \<noteq> [] then None
      else (let n = foldl (\<lambda>acc x. 10 * acc + x) 0 (d # ds)
            in Some (TInt (if neg then - n else n))))"

text \<open>A character met between tokens: the token it is, or the mode it opens.\<close>

definition open_token :: "char \<Rightarrow> (token list \<times> lex_mode) option" where
  "open_token c =
     (if is_space c then Some ([], Between)
      else if c = CHR ''{'' then Some ([LBrace], Between)
      else if c = CHR ''}'' then Some ([RBrace], Between)
      else if c = CHR '':'' then Some ([Colon], Between)
      else if c = CHR '','' then Some ([Comma], Between)
      else if c = CHR 0x22 then Some ([], InString [])
      else if c = CHR ''-'' then Some ([], InNumber True [])
      else if c = CHR ''t'' then Some ([], InWord ''rue'' TTrue)
      else if c = CHR ''f'' then Some ([], InWord ''alse'' TFalse)
      else if c = CHR ''n'' then Some ([], InWord ''ull'' TNull)
      else (case digit_of c of
              Some d \<Rightarrow> Some ([], InNumber False [d])
            | None \<Rightarrow> None))"

text \<open>
  The character an escape stands for; the escape with \<open>u\<close> and four hexadecimal digits
  is outside the fragment.
\<close>

definition unescape :: "char \<Rightarrow> char option" where
  "unescape c =
     (if c = CHR 0x22 \<or> c = CHR 0x5C \<or> c = CHR ''/'' then Some c
      else if c = CHR ''b'' then Some (CHR 0x08)
      else if c = CHR ''f'' then Some (CHR 0x0C)
      else if c = CHR ''n'' then Some (CHR 0x0A)
      else if c = CHR ''r'' then Some (CHR 0x0D)
      else if c = CHR ''t'' then Some (CHR 0x09)
      else None)"

text \<open>
  The scanner, one character at a time. A string ends at its closing quote and may not
  hold control characters (nor, in this fragment, bytes outside ASCII); a number ends at
  white space, a comma or a closing brace; \<open>None\<close> when the input leaves the fragment.
\<close>

fun lex :: "lex_mode \<Rightarrow> string \<Rightarrow> token list option" where
  "lex Between [] = Some []"
| "lex (InString acc) [] = None"
| "lex (InEscape acc) [] = None"
| "lex (InNumber neg ds) [] = map_option (\<lambda>t. [t]) (number_token neg ds)"
| "lex (InWord w t) [] = None"
| "lex Between (c # cs) =
     (case open_token c of
        None \<Rightarrow> None
      | Some (ts, m) \<Rightarrow> map_option ((@) ts) (lex m cs))"
| "lex (InString acc) (c # cs) =
     (if c = CHR 0x22 then map_option ((#) (TString acc)) (lex Between cs)
      else if c = CHR 0x5C then lex (InEscape acc) cs
      else if (of_char c :: nat) < 32 \<or> (of_char c :: nat) \<ge> 128 then None
      else lex (InString (acc @ [c])) cs)"
| "lex (InEscape acc) (c # cs) =
     (case unescape c of
        None \<Rightarrow> None
      | Some x \<Rightarrow> lex (InString (acc @ [x])) cs)"
| "lex (InNumber neg ds) (c # cs) =
     (case digit_of c of
        Some d \<Rightarrow> lex (InNumber neg (ds @ [d])) cs
      | None \<Rightarrow>
          (case number_token neg ds of
             None \<Rightarrow> None
           | Some t \<Rightarrow>
               (if is_space c \<or> c = CHR '','' \<or> c = CHR ''}''
                then (case open_token c of
                        None \<Rightarrow> None
                      | Some (ts, m) \<Rightarrow> map_option ((@) (t # ts)) (lex m cs))
                else None)))"
| "lex (InWord w t) (c # cs) =
     (case w of
        [] \<Rightarrow> None
      | x # xs \<Rightarrow>
          (if c \<noteq> x then None
           else if xs = [] then map_option ((#) t) (lex Between cs)
           else lex (InWord xs t) cs))"

text \<open>The values of the fragment.\<close>

datatype jvalue = JString string | JInt int | JBool bool | JNull

fun token_value :: "token \<Rightarrow> jvalue option" where
  "token_value (TString s) = Some (JString s)"
| "token_value (TInt n) = Some (JInt n)"
| "token_value TTrue = Some (JBool True)"
| "token_value TFalse = Some (JBool False)"
| "token_value TNull = Some JNull"
| "token_value _ = None"

text \<open>The members of an object after its opening brace, up to the end of the input.\<close>

fun members :: "token list \<Rightarrow> (string \<times> jvalue) list option" where
  "members [TString k, Colon, v, RBrace] = map_option (\<lambda>x. [(k, x)]) (token_value v)"
| "members (TString k # Colon # v # Comma # rest) =
     (case token_value v of
        None \<Rightarrow> None
      | Some x \<Rightarrow> map_option ((#) (k, x)) (members rest))"
| "members _ = None"

text \<open>The whole input: one object, with its members in their order.\<close>

fun object :: "token list \<Rightarrow> (string \<times> jvalue) list option" where
  "object [LBrace, RBrace] = Some []"
| "object (LBrace # rest) = members rest"
| "object _ = None"

text \<open>
  The results other than success: the input is outside the fragment, or the library's
  \<open>UnmarshalTypeError\<close>, here with the tag of the field.
\<close>

datatype json_error = NotModelled | UnmarshalTypeError string

text \<open>
  A key selects the field whose tag it equals, letter case aside; a key that selects no
  field is skipped. \<open>null\<close> leaves the field as it is; a value of another kind than the
  field's, or an integer outside \<open>int64\<close>, is a type error.
\<close>

definition lower :: "char \<Rightarrow> char" where
  "lower c = (let n = of_char c :: nat in if 65 \<le> n \<and> n \<le> 90 then char_of (n + 32) else c)"

definition set_string ::
  "string \<Rightarrow> jvalue \<Rightarrow> (string \<Rightarrow> IDTokenClaims) \<Rightarrow> json_error + IDTokenClaims" where
  "set_string tag v upd =
     (case v of JString s \<Rightarrow> Inr (upd s) | _ \<Rightarrow> Inl (UnmarshalTypeError tag))"

definition set_int64 ::
  "string \<Rightarrow> jvalue \<Rightarrow> (int64 \<Rightarrow> IDTokenClaims) \<Rightarrow> json_error + IDTokenClaims" where
  "set_int64 tag v upd =
     (case v of
        JInt n \<Rightarrow>
          (if - (2 ^ 63) \<le> n \<and> n < 2 ^ 63 then Inr (upd (of_int n))
           else Inl (UnmarshalTypeError tag))
      | _ \<Rightarrow> Inl (UnmarshalTypeError tag))"

definition set_bool ::
  "string \<Rightarrow> jvalue \<Rightarrow> (bool \<Rightarrow> IDTokenClaims) \<Rightarrow> json_error + IDTokenClaims" where
  "set_bool tag v upd =
     (case v of JBool b \<Rightarrow> Inr (upd b) | _ \<Rightarrow> Inl (UnmarshalTypeError tag))"

definition set_field :: "string \<Rightarrow> jvalue \<Rightarrow> IDTokenClaims \<Rightarrow> json_error + IDTokenClaims" where
  "set_field key v c =
     (let tag = map lower key in
      if v = JNull then Inr c
      else if tag = ''iss'' then set_string tag v (\<lambda>s. c\<lparr>Issuer := s\<rparr>)
      else if tag = ''sub'' then set_string tag v (\<lambda>s. c\<lparr>Subject := s\<rparr>)
      else if tag = ''aud'' then set_string tag v (\<lambda>s. c\<lparr>Audience := s\<rparr>)
      else if tag = ''exp'' then set_int64 tag v (\<lambda>n. c\<lparr>Expiration := n\<rparr>)
      else if tag = ''iat'' then set_int64 tag v (\<lambda>n. c\<lparr>IssuedAt := n\<rparr>)
      else if tag = ''name'' then set_string tag v (\<lambda>s. c\<lparr>Name := s\<rparr>)
      else if tag = ''email'' then set_string tag v (\<lambda>s. c\<lparr>Email := s\<rparr>)
      else if tag = ''email_verified'' then set_bool tag v (\<lambda>b. c\<lparr>EmailVerified := b\<rparr>)
      else if tag = ''picture'' then set_string tag v (\<lambda>s. c\<lparr>Picture := s\<rparr>)
      else if tag = ''given_name'' then set_string tag v (\<lambda>s. c\<lparr>GivenName := s\<rparr>)
      else if tag = ''family_name'' then set_string tag v (\<lambda>s. c\<lparr>FamilyName := s\<rparr>)
      else if tag = ''locale'' then set_string tag v (\<lambda>s. c\<lparr>Locale := s\<rparr>)
      else Inr c)"

text \<open>The members are stored in their order, so the last of two equal keys wins.\<close>

fun set_fields :: "(string \<times> jvalue) list \<Rightarrow> IDTokenClaims \<Rightarrow> json_error + IDTokenClaims" where
  "set_fields [] c = Inr c"
| "set_fields ((k, v) # kvs) c =
     (case set_field k v c of Inl e \<Rightarrow> Inl e | Inr c1 \<Rightarrow> set_fields kvs c1)"

text \<open>
  \<open>json.Unmarshal(data, &claims)\<close>: the input is checked as a whole before any field is
  stored, and the first type error is the one returned.
\<close>

definition json_Unmarshal :: "byte list \<Rightarrow> IDTokenClaims \<Rightarrow> json_error + IDTokenClaims" where
  "json_Unmarshal data c =
     (case lex Between (map byte_char data) of
        None \<Rightarrow> Inl NotModelled
      | Some ts \<Rightarrow>
          (case object ts of
             None \<Rightarrow> Inl NotModelled
           | Some kvs \<Rightarrow> set_fields kvs c))"

subsection \<open>Parsing\<close>

text \<open>
  The errors of \<open>base64URLDecode\<close>: its own \<open>invalid base64url string length\<close>, and
  the decoder's.
\<close>

datatype decode_error = InvalidLength | Base64Error base64_error

text \<open>
  \<open>base64URLDecode\<close>. The call \<open>base64.StdEncoding.DecodeString\<close> is the parameter
  \<open>decodeString\<close>, so that what the function does before it reaches the decoder holds for
  every decoder. The \<open>switch\<close> on the length modulo 4 pads in the cases 2 and 3, leaves
  case 0 alone and returns the error in the remaining case.
\<close>

definition base64URLDecode ::
  "(string \<Rightarrow> base64_error + byte list) \<Rightarrow> string \<Rightarrow> decode_error + byte list" where
  "base64URLDecode decodeString s =
     (let m = length s mod 4;
          padded = (if m = 0 then Inr s
                    else if m = 2 then Inr (s @ ''=='')
                    else if m = 3 then Inr (s @ ''='')
                    else Inl InvalidLength)
      in case padded of
           Inl err \<Rightarrow> Inl err
         | Inr s \<Rightarrow>
             (let s = ReplaceAll s CHR ''-'' ''+'';
                  s = ReplaceAll s CHR ''_'' ''/''
              in case decodeString s of
                   Inl e \<Rightarrow> Inl (Base64Error e)
                 | Inr bs \<Rightarrow> Inr bs))"

text \<open>
  The errors of \<open>ParseIDToken\<close>, one constructor per \<open>fmt.Errorf\<close>:
  \<open>invalid ID token format: expected 3 parts, got %d\<close>,
  \<open>failed to decode token payload: %w\<close> and \<open>failed to parse token claims: %w\<close>.
\<close>

datatype token_error =
    InvalidFormat nat
  | DecodePayloadFailed decode_error
  | ParseClaimsFailed json_error

text \<open>The zero value of the struct, which \<open>var claims IDTokenClaims\<close> declares.\<close>

definition zero_claims :: IDTokenClaims where
  "zero_claims =
     \<lparr>Issuer = [], Subject = [], Audience = [], Expiration = 0, IssuedAt = 0,
      Name = [], Email = [], EmailVerified = False, Picture = [], GivenName = [],
      FamilyName = [], Locale = [], rawHeader = [], rawPayload = [], rawSignature = []\<rparr>"

text \<open>
  \<open>ParseIDToken\<close>. The two library calls it reaches, the base64 decoder (through
  \<open>base64URLDecode\<close>) and \<open>json.Unmarshal\<close>, are parameters; \<open>DecodeString\<close> and
  \<open>json_Unmarshal\<close> above are the models to run it with. The token is split at its
  dots; unless that gives exactly three parts the format error is returned with their
  number. The payload is decoded and unmarshalled into a zero claims value, and the
  three raw parts are stored in the result.
\<close>

definition ParseIDToken ::
  "(string \<Rightarrow> base64_error + byte list) \<Rightarrow>
   (byte list \<Rightarrow> IDTokenClaims \<Rightarrow> json_error + IDTokenClaims) \<Rightarrow>
   string \<Rightarrow> token_error + IDTokenClaims" where
  "ParseIDToken decodeString unmarshal idToken =
     (let parts = Split idToken CHR ''.'' in
      case parts of
        [rawHeader', rawPayload', rawSignature'] \<Rightarrow>
          (case base64URLDecode decodeString rawPayload' of
             Inl err \<Rightarrow> Inl (DecodePayloadFailed err)
           | Inr payload \<Rightarrow>
               (case unmarshal payload zero_claims of
                  Inl err \<Rightarrow> Inl (ParseClaimsFailed err)
                | Inr claims \<Rightarrow>
                    Inr (claims\<lparr>rawHeader := rawHeader', rawPayload := rawPayload',
                               rawSignature := rawSignature'\<rparr>)))
      | _ \<Rightarrow> Inl (InvalidFormat (length parts)))"

subsection \<open>An example payload\<close>

text \<open>
  The claims object
  \<open>{"iss":"https://example.com","sub":"123","aud":"client1","exp":9999999999,"iat":1000000000}\<close>
  as a string; \<open>quoted s\<close> is \<open>s\<close> between double quotes.
\<close>

definition quoted :: "string \<Rightarrow> string" where
  "quoted s = CHR 0x22 # s @ [CHR 0x22]"

definition example_payload :: string where
  "example_payload =
     ''{'' @ quoted ''iss'' @ '':'' @ quoted ''https://example.com'' @ '','' @
     quoted ''sub'' @ '':'' @ quoted ''123'' @ '','' @
     quoted ''aud'' @ '':'' @ quoted ''client1'' @ '','' @
     quoted ''exp'' @ '':9999999999,'' @
     quoted ''iat'' @ '':1000000000}''"

subsection \<open>Validation\<close>

text \<open>
  The errors \<open>ValidateIDToken\<close> builds with \<open>fmt.Errorf\<close>, one constructor per
  message, carrying the values the message prints.
\<close>

datatype validate_error =
    Expired int64 int64
  | IssuedInFuture int64 int64
  | AudienceMismatch

text \<open>
  The loop \<open>for _, aud := range audiences\<close> of \<open>ValidateIDToken\<close>, which sets
  \<open>found\<close> and breaks at the first entry equal to the expected audience.
\<close>

fun audience_found :: "string list \<Rightarrow> string \<Rightarrow> bool" where
  "audience_found [] expectedAudience = False"
| "audience_found (aud # rest) expectedAudience =
     (if aud = expectedAudience then True else audience_found rest expectedAudience)"

text \<open>
  \<open>ValidateIDToken\<close>. The source reads the clock itself (\<open>time.Now().Unix()\<close>); the
  reading is the parameter \<open>now\<close>. The comparisons are those of Go's signed \<open>int64\<close>.
  \<open>None\<close> is the \<open>nil\<close> error.
\<close>

definition ValidateIDToken :: "IDTokenClaims \<Rightarrow> string \<Rightarrow> int64 \<Rightarrow> validate_error option" where
  "ValidateIDToken claims expectedAudience now =
     (if Expiration claims <s now then Some (Expired (Expiration claims) now)
      else if now <s IssuedAt claims then Some (IssuedInFuture (IssuedAt claims) now)
      else if expectedAudience \<noteq> [] then
        (let audiences = (if Audience claims \<noteq> [] then [Audience claims] else []);
             found = audience_found audiences expectedAudience
         in if \<not> found then Some AudienceMismatch else None)
      else None)"

section \<open>The callback server (internal/server/callback.go)\<close>

subsection \<open>Buffered channels\<close>

text \<open>
  A Go channel made by \<open>make(chan T, n)\<close>: a buffer of at most \<open>cap\<close> values and the
  queue of goroutines parked in a send, each with the value it is sending. A send on a
  channel with room appends to the buffer and completes; on a full buffer the sender
  parks. A receive takes the head of the buffer; the first parked sender, if any, then
  moves its value into the freed slot and resumes.
\<close>

datatype sender = Handler | ServeGoroutine

record 'a chan =
  buf :: "'a list"
  cap :: nat
  sendq :: "(sender \<times> 'a) list"

definition make_chan :: "nat \<Rightarrow> 'a chan" where
  "make_chan n = \<lparr>buf = [], cap = n, sendq = []\<rparr>"

text \<open>\<open>ch <- v\<close> by goroutine \<open>who\<close>: the channel afterwards and whether the send completed.\<close>

definition chan_send :: "sender \<Rightarrow> 'a \<Rightarrow> 'a chan \<Rightarrow> 'a chan \<times> bool" where
  "chan_send who v ch =
     (if length (buf ch) < cap ch then (ch\<lparr>buf := buf ch @ [v]\<rparr>, True)
      else (ch\<lparr>sendq := sendq ch @ [(who, v)]\<rparr>, False))"

text \<open>
  \<open><-ch\<close> when a value is ready: the value, the channel afterwards and the sender that
  resumes. \<open>None\<close> when the buffer is empty (the receive is not ready).
\<close>

definition chan_recv :: "'a chan \<Rightarrow> ('a \<times> 'a chan \<times> sender option) option" where
  "chan_recv ch =
     (case buf ch of
        [] \<Rightarrow> None
      | v # rest \<Rightarrow>
          (case sendq ch of
             [] \<Rightarrow> Some (v, ch\<lparr>buf := rest\<rparr>, None)
           | (who, x) # q \<Rightarrow> Some (v, ch\<lparr>buf := rest @ [x], sendq := q\<rparr>, Some who)))"

subsection \<open>The server value\<close>

text \<open>
  The errors sent on \<open>errChan\<close>, one constructor per \<open>fmt.Errorf\<close> of the file:
  \<open>no authorization code received\<close>, \<open>oauth error: %s - %s\<close> and
  \<open>callback server error: %w\<close>.
\<close>

datatype callback_error =
    NoAuthorizationCode
  | OAuthError string string
  | ServerError string

definition error_text :: "callback_error \<Rightarrow> string" where
  "error_text e =
     (case e of
        NoAuthorizationCode \<Rightarrow> ''no authorization code received''
      | OAuthError errMsg errDesc \<Rightarrow> ''oauth error: '' @ errMsg @ '' - '' @ errDesc
      | ServerError err \<Rightarrow> ''callback server error: '' @ err)"

text \<open>
  The \<open>http.Server\<close> behind the pointer field: its address (the port; the source formats
  it as \<open>:%d\<close>), whether the goroutine spawned by \<open>Start\<close> is inside \<open>Serve\<close> on it, and
  whether \<open>Shutdown\<close> has been called on it.
\<close>

record http_Server =
  Addr :: int
  serving :: bool
  inShutdown :: bool

text \<open>The three states of a \<open>sync.Once\<close>: not run, inside \<open>Do\<close>, done.\<close>

datatype once_state = OnceNew | OnceRunning | OnceDone

text \<open>
  The struct \<open>CallbackServer\<close>. The field \<open>server\<close> is a pointer: \<open>None\<close> is \<open>nil\<close>.
  \<open>shutdownWg\<close> is the counter of the \<open>sync.WaitGroup\<close>.
\<close>

record CallbackServer =
  server :: "http_Server option"
  port :: int
  path :: string
  codeChan :: "string chan"
  errChan :: "callback_error chan"
  once :: once_state
  shutdownWg :: int

definition NewCallbackServer :: "int \<Rightarrow> string \<Rightarrow> CallbackServer" where
  "NewCallbackServer p pth =
     \<lparr>server = None, port = p, path = pth,
      codeChan = make_chan 1, errChan = make_chan 1,
      once = OnceNew, shutdownWg = 0\<rparr>"

subsection \<open>Start, the serve goroutine, Stop\<close>

text \<open>
  \<open>Start\<close>. The result of \<open>net.Listen\<close> is the parameter \<open>listen_err\<close> (\<open>None\<close>: the
  port was bound). The server object is stored in the field before the port is tried,
  so a failed \<open>Start\<close> leaves a non-nil server that serves nothing. On success the
  wait group is incremented and the goroutine enters \<open>Serve\<close>.
\<close>

datatype start_error = PortUnavailable int string

definition Start :: "string option \<Rightarrow> CallbackServer \<Rightarrow> start_error option \<times> CallbackServer" where
  "Start listen_err s =
     (let srv = \<lparr>Addr = port s, serving = False, inShutdown = False\<rparr>;
          s1 = s\<lparr>server := Some srv\<rparr>
      in case listen_err of
           Some err \<Rightarrow> (Some (PortUnavailable (port s) err), s1)
         | None \<Rightarrow>
             (None, s1\<lparr>shutdownWg := shutdownWg s1 + 1,
                        server := Some (srv\<lparr>serving := True\<rparr>)\<rparr>))"

text \<open>
  The goroutine of \<open>Start\<close> when \<open>Serve\<close> returns an error other than
  \<open>http.ErrServerClosed\<close>: it sends the wrapped error on \<open>errChan\<close> and, once the
  send has completed, runs the deferred \<open>shutdownWg.Done()\<close>.
\<close>

definition Serve_fails :: "string \<Rightarrow> CallbackServer \<Rightarrow> CallbackServer" where
  "Serve_fails err s =
     (case server s of
        None \<Rightarrow> s
      | Some srv \<Rightarrow>
          if \<not> serving srv then s
          else
            (let (ch, sent) = chan_send ServeGoroutine (ServerError err) (errChan s);
                 s1 = s\<lparr>server := Some (srv\<lparr>serving := False\<rparr>), errChan := ch\<rparr>
             in if sent then s1\<lparr>shutdownWg := shutdownWg s1 - 1\<rparr> else s1))"

text \<open>
  \<open>Stop\<close>. \<open>once.Do\<close> runs the body at most once: a later call returns at once, and a
  call made while the body has not returned waits for it. The body calls
  \<open>s.server.Shutdown\<close>, which dereferences the pointer: on \<open>nil\<close> it panics, and
  \<open>sync.Once\<close> counts a panicking body as done. \<open>Shutdown\<close> makes a running \<open>Serve\<close>
  return \<open>ErrServerClosed\<close>, so the goroutine leaves without sending and runs
  \<open>Done()\<close>; the error \<open>Shutdown\<close> itself returns (its five second context may expire
  while handlers are still active) is the parameter \<open>shutdown_err\<close>, and is only logged.
  \<open>shutdownWg.Wait()\<close> returns when the counter is zero.
\<close>

datatype stop_result =
    NoOp
  | Stopped "string option"
  | Panicked
  | Blocked

definition Stop :: "string option \<Rightarrow> CallbackServer \<Rightarrow> stop_result \<times> CallbackServer" where
  "Stop shutdown_err s =
     (case once s of
        OnceDone \<Rightarrow> (NoOp, s)
      | OnceRunning \<Rightarrow> (Blocked, s)
      | OnceNew \<Rightarrow>
          (case server s of
             None \<Rightarrow> (Panicked, s\<lparr>once := OnceDone\<rparr>)
           | Some srv \<Rightarrow>
               (let wg = (if serving srv then shutdownWg s - 1 else shutdownWg s);
                    s1 = s\<lparr>server := Some (srv\<lparr>serving := False, inShutdown := True\<rparr>),
                           shutdownWg := wg\<rparr>
                in if wg = 0 then (Stopped shutdown_err, s1\<lparr>once := OnceDone\<rparr>)
                   else (Blocked, s1\<lparr>once := OnceRunning\<rparr>))))"

subsection \<open>The handler\<close>

text \<open>
  The parsed query of the request, in the order of the URL. \<open>Values.Get\<close> returns the
  first value of a key, and the empty string when the key is absent.
\<close>

type_synonym query = "(string \<times> string) list"

definition Query_Get :: "query \<Rightarrow> string \<Rightarrow> string" where
  "Query_Get q k = (case map_of q k of None \<Rightarrow> [] | Some v \<Rightarrow> v)"

text \<open>
  What a handler writes to its \<open>ResponseWriter\<close>: a status and a body. \<open>http.Error\<close>
  writes the message and a newline as plain text; \<open>SuccessPage code\<close> stands for the
  HTML template of the source with the code in its \<open>%s\<close>.
\<close>

datatype page = PlainText string | SuccessPage string

record http_response =
  status :: nat
  body :: page

definition http_Error :: "string \<Rightarrow> nat \<Rightarrow> http_response" where
  "http_Error msg code = \<lparr>status = code, body = PlainText (msg @ [CHR 0x0A])\<rparr>"

definition StatusBadRequest :: nat where
  "StatusBadRequest = 400"

definition StatusOK :: nat where
  "StatusOK = 200"

datatype outcome = CodeOutcome string | ErrOutcome callback_error

text \<open>
  One run of \<open>handleCallback\<close> up to its return or to the send it parks in:
  \<open>response\<close> is what it has written by then, \<open>sent\<close> the operand of its channel send,
  \<open>returned\<close> whether the send completed (so that the handler ran to its end), and
  \<open>after\<close> the server afterwards. The two error branches write the response before they
  send; the success branch sends first and writes the page after.
\<close>

record handler_run =
  response :: "http_response option"
  sent :: outcome
  returned :: bool
  after :: CallbackServer

definition handleCallback :: "query \<Rightarrow> CallbackServer \<Rightarrow> handler_run" where
  "handleCallback q s =
     (let code = Query_Get q ''code'' in
      if code = [] then
        (let w = http_Error ''No authorization code received'' StatusBadRequest;
             (ch, done) = chan_send Handler NoAuthorizationCode (errChan s)
         in \<lparr>response = Some w, sent = ErrOutcome NoAuthorizationCode,
             returned = done, after = s\<lparr>errChan := ch\<rparr>\<rparr>)
      else
        (let errMsg = Query_Get q ''error'' in
         if errMsg \<noteq> [] then
           (let errDesc = Query_Get q ''error_description'';
                w = http_Error (''OAuth error: '' @ errMsg @ '' - '' @ errDesc) StatusBadRequest;
                (ch, done) = chan_send Handler (OAuthError errMsg errDesc) (errChan s)
            in \<lparr>response = Some w, sent = ErrOutcome (OAuthError errMsg errDesc),
                returned = done, after = s\<lparr>errChan := ch\<rparr>\<rparr>)
         else
           (let (ch, done) = chan_send Handler code (codeChan s)
            in \<lparr>response =
                  (if done then Some \<lparr>status = StatusOK, body = SuccessPage code\<rparr> else None),
                sent = CodeOutcome code, returned = done, after = s\<lparr>codeChan := ch\<rparr>\<rparr>)))"

text \<open>The requests of one attempt, handled one after the other.\<close>

fun handle_all :: "query list \<Rightarrow> CallbackServer \<Rightarrow> CallbackServer" where
  "handle_all [] s = s"
| "handle_all (q # qs) s = handle_all qs (after (handleCallback q s))"

text \<open>
  The outcomes that have been handed to the two channels and not yet received: those
  in the buffers and those of parked senders.
\<close>

definition published :: "CallbackServer \<Rightarrow> outcome list" where
  "published s =
     map CodeOutcome (buf (codeChan s) @ map snd (sendq (codeChan s))) @
     map ErrOutcome (buf (errChan s) @ map snd (sendq (errChan s)))"

subsection \<open>The waiting caller\<close>

text \<open>
  \<open>WaitForCode\<close>: one \<open>select\<close> over the two channels and the context. \<open>ctx\<close> is
  \<open>None\<close> while the context is not done, else its error. The result lists every case
  that is ready, with the server afterwards (Go picks one of the ready cases at random);
  the empty list means that the call stays blocked. A serve goroutine that resumes from
  a parked send runs its deferred \<open>Done()\<close>.
\<close>

datatype wait_result = GotCode string | GotError callback_error | CtxError string

definition resume :: "sender option \<Rightarrow> CallbackServer \<Rightarrow> CallbackServer" where
  "resume who s =
     (case who of
        Some ServeGoroutine \<Rightarrow> s\<lparr>shutdownWg := shutdownWg s - 1\<rparr>
      | _ \<Rightarrow> s)"

definition WaitForCode :: "string option \<Rightarrow> CallbackServer \<Rightarrow> (wait_result \<times> CallbackServer) list" where
  "WaitForCode ctx s =
     (case chan_recv (codeChan s) of
        Some (code, ch, who) \<Rightarrow> [(GotCode code, resume who (s\<lparr>codeChan := ch\<rparr>))]
      | None \<Rightarrow> []) @
     (case chan_recv (errChan s) of
        Some (err, ch, who) \<Rightarrow> [(GotError err, resume who (s\<lparr>errChan := ch\<rparr>))]
      | None \<Rightarrow> []) @
     (case ctx of Some e \<Rightarrow> [(CtxError e, s)] | None \<Rightarrow> [])"


text \<open>Auxiliary notions for the proofs: the values pending on a channel, and the
  invariant that both channels have capacity one and never hold more.\<close>

definition pending :: "'a chan \<Rightarrow> nat" where
  "pending ch = length (buf ch) + length (sendq ch)"

definition chans_ok :: "CallbackServer \<Rightarrow> bool" where
  "chans_ok s \<longleftrightarrow> cap (codeChan s) = 1 \<and> cap (errChan s) = 1 \<and>
     length (buf (codeChan s)) \<le> 1 \<and> length (buf (errChan s)) \<le> 1"

section \<open>Base64: what the encoder writes, and decoding it again\<close>

lemma length_encodeStd: "length encodeStd = 64"
  by (simp add: encodeStd_def)


lemma pad_notin_encodeStd: "StdPadding \<notin> set encodeStd"
  by (simp add: encodeStd_def StdPadding_def)

lemma unat_and_63: "unat ((v :: 32 word) AND 0x3F) < 64"
proof -
  have "unat (v AND 0x3F) \<le> unat (0x3F :: 32 word)"
    by (rule word_and_le1 [THEN word_le_nat_alt [THEN iffD1]])
  then show ?thesis by simp
qed

lemma enc6_in: "enc6 v \<in> set encodeStd"
  unfolding enc6_def using unat_and_63 [of v] by (simp add: length_encodeStd)








lemma EncodeToString_Nil_iff: "EncodeToString bs = [] \<longleftrightarrow> bs = []"
  by (induction bs rule: EncodeToString.induct) (simp_all add: Let_def)





lemma EncodeToString_shape:
  "\<exists>chars. EncodeToString bs = chars @ replicate ((3 - length bs mod 3) mod 3) StdPadding \<and>
     set chars \<subseteq> set encodeStd \<and> length chars = (4 * length bs + 2) div 3"
proof (induction bs rule: EncodeToString.induct)
  case 1
  then show ?case by simp
next
  case (2 a)
  have "EncodeToString [a] =
      [enc6 (drop_bit 18 (push_bit 16 (ucast a))), enc6 (drop_bit 12 (push_bit 16 (ucast a)))]
      @ replicate 2 StdPadding"
    by (simp add: Let_def numeral_2_eq_2)
  then show ?case
    by (intro exI [of _ "[enc6 (drop_bit 18 (push_bit 16 (ucast a))), enc6 (drop_bit 12 (push_bit 16 (ucast a)))]"])
      (simp add: enc6_in)
next
  case (3 a b)
  let ?v = "push_bit 16 (ucast a :: 32 word) OR push_bit 8 (ucast b)"
  show ?case
    by (intro exI [of _ "[enc6 (drop_bit 18 ?v), enc6 (drop_bit 12 ?v), enc6 (drop_bit 6 ?v)]"])
      (simp add: enc6_in Let_def)
next
  case (4 a b c rest)
  then obtain chars where b: "EncodeToString rest = chars @ replicate ((3 - length rest mod 3) mod 3) StdPadding"
    "set chars \<subseteq> set encodeStd" "length chars = (4 * length rest + 2) div 3"
    by blast
  let ?v = "push_bit 16 (ucast a :: 32 word) OR push_bit 8 (ucast b) OR ucast c"
  have m: "length (a # b # c # rest) mod 3 = length rest mod 3" by simp
  show ?case
    apply (intro exI [of _ "[enc6 (drop_bit 18 ?v), enc6 (drop_bit 12 ?v), enc6 (drop_bit 6 ?v), enc6 ?v] @ chars"])
    using b by (simp add: enc6_in Let_def)
qed

subsection \<open>The URL-safe rewriting\<close>

lemma ReplaceAll_char: "ReplaceAll s old [new] = map (\<lambda>c. if c = old then new else c) s"
  by (induction s) simp_all

lemma ReplaceAll_empty: "ReplaceAll s old [] = filter (\<lambda>c. c \<noteq> old) s"
  by (induction s) simp_all

lemma url_rewrite:
  "ReplaceAll (ReplaceAll (ReplaceAll s CHR ''+'' ''-'') CHR ''/'' ''_'') CHR ''='' []
     = map url_char (filter (\<lambda>c. c \<noteq> StdPadding) s)"
  by (induction s) (simp_all add: url_char_def StdPadding_def)

lemma GenerateCodeVerifier_base64url: "GenerateCodeVerifier (Inr b) = Inr (base64url b)"
  by (simp add: GenerateCodeVerifier_def base64url_def url_rewrite)

lemma CreateCodeChallenge_base64url:
  "CreateCodeChallenge v = base64url (sha256 (map char_byte v))"
  by (simp add: CreateCodeChallenge_def base64url_def url_rewrite sha256_New_def
      hash_Write_def hash_Sum_def)

lemma url_char_alphabet: "c \<in> set encodeStd \<Longrightarrow> url_char c \<in> set encodeURL"
  by (auto simp: encodeStd_def encodeURL_def url_char_def)

lemma base64url_body:
  assumes "EncodeToString bs = chars @ replicate k StdPadding" "set chars \<subseteq> set encodeStd"
  shows "base64url bs = map url_char chars"
proof -
  have "filter (\<lambda>c. c \<noteq> StdPadding) chars = chars"
    using assms(2) pad_notin_encodeStd by (auto simp: filter_id_conv)
  then show ?thesis by (simp add: base64url_def assms(1))
qed

lemma base64url_length: "length (base64url bs) = (4 * length bs + 2) div 3"
proof -
  from EncodeToString_shape [of bs] obtain chars where
    b: "EncodeToString bs = chars @ replicate ((3 - length bs mod 3) mod 3) StdPadding"
       "set chars \<subseteq> set encodeStd" "length chars = (4 * length bs + 2) div 3"
    by blast
  show ?thesis using base64url_body [OF b(1,2)] b(3) by simp
qed

lemma base64url_alphabet: "set (base64url bs) \<subseteq> set encodeURL"
proof -
  from EncodeToString_shape [of bs] obtain chars where
    b: "EncodeToString bs = chars @ replicate ((3 - length bs mod 3) mod 3) StdPadding"
       "set chars \<subseteq> set encodeStd"
    by blast
  show ?thesis using base64url_body [OF b(1,2)] b(2) url_char_alphabet by auto
qed

section \<open>The code verifier\<close>

text \<open>
  C5. For every 32 bytes drawn from the random source, \<open>GenerateCodeVerifier\<close> succeeds
  with a verifier of 43 characters, so within 43 to 128, all of them from the URL-safe
  alphabet without padding; and it fails exactly when the random source fails.
\<close>

theorem GenerateCodeVerifier_length_alphabet:
  "(length b = 32 \<longrightarrow>
      (\<exists>v. GenerateCodeVerifier (Inr b) = Inr v \<and> length v = 43 \<and>
           43 \<le> length v \<and> length v \<le> 128 \<and> set v \<subseteq> set encodeURL)) \<and>
   ((\<exists>e. GenerateCodeVerifier r = Inl e) \<longleftrightarrow> (\<exists>err. r = Inl err))"
proof -
  have "length b = 32 \<longrightarrow> length (base64url b) = 43"
    by (simp add: base64url_length)
  moreover have "(\<exists>e. GenerateCodeVerifier r = Inl e) \<longleftrightarrow> (\<exists>err. r = Inl err)"
    by (cases r) (simp_all add: GenerateCodeVerifier_def Let_def)
  ultimately show ?thesis
    using base64url_alphabet [of b] by (simp add: GenerateCodeVerifier_base64url)
qed

text \<open>A draw whose encoding has both \<open>+\<close> and \<open>/\<close> to rewrite, and a failing source.\<close>

theorem GenerateCodeVerifier_length_alphabet_witness:
  "length [251, 255, 191, 0, 1, 2, 3, 4, 5, 6, 7, 8, 9, 10, 11, 12, 13, 14, 15, 16,
           17, 18, 19, 20, 21, 22, 23, 24, 25, 26, 27, 28 :: byte] = 32 \<and>
   GenerateCodeVerifier
     (Inr [251, 255, 191, 0, 1, 2, 3, 4, 5, 6, 7, 8, 9, 10, 11, 12, 13, 14, 15, 16,
           17, 18, 19, 20, 21, 22, 23, 24, 25, 26, 27, 28])
     = Inr ''-_-_AAECAwQFBgcICQoLDA0ODxAREhMUFRYXGBkaGxw'' \<and>
   length ''-_-_AAECAwQFBgcICQoLDA0ODxAREhMUFRYXGBkaGxw'' = 43 \<and>
   set ''-_-_AAECAwQFBgcICQoLDA0ODxAREhMUFRYXGBkaGxw'' \<subseteq> set encodeURL \<and>
   (\<exists>e. GenerateCodeVerifier (Inl ''entropy source failed'') = Inl e)"
proof -
  let ?b = "[251, 255, 191, 0, 1, 2, 3, 4, 5, 6, 7, 8, 9, 10, 11, 12, 13, 14, 15, 16,
             17, 18, 19, 20, 21, 22, 23, 24, 25, 26, 27, 28 :: byte]"
  have n: "length ?b = 32" by simp
  have e: "GenerateCodeVerifier (Inr ?b) = Inr ''-_-_AAECAwQFBgcICQoLDA0ODxAREhMUFRYXGBkaGxw''"
    by code_simp
  from GenerateCodeVerifier_length_alphabet [of ?b "Inl ''entropy source failed''"] n
  have "\<exists>v. GenerateCodeVerifier (Inr ?b) = Inr v \<and> length v = 43 \<and> set v \<subseteq> set encodeURL"
    and "\<exists>e. GenerateCodeVerifier (Inl ''entropy source failed'') = Inl e"
    by blast+
  with n e show ?thesis by (simp only: sum.inject simp_thms)
qed

section \<open>The code challenge\<close>






text \<open>
  The verifier and challenge of RFC 7636, appendix B, as a check of the model of SHA-256
  and of the encoding.
\<close>

lemma CreateCodeChallenge_rfc7636:
  "CreateCodeChallenge ''dBjftJeZ4CVP-mB92K27uhbUJU1p1r_wW1gFWFOEjXk''
     = ''E9Melhoa2OwvFrEMTJguCHaoeK1t8URWbuGJSstw-cM''"
  by code_simp

text \<open>
  C6. \<open>CreateCodeChallenge\<close> is a function of the verifier alone, the unpadded
  base64url encoding of the SHA-256 digest of its bytes, so that computing it again
  gives the same challenge; and \<open>VerifyCodeChallenge\<close> accepts the challenge of every
  verifier for that verifier.
\<close>

theorem CreateCodeChallenge_deterministic:
  "CreateCodeChallenge v = base64url (sha256 (map char_byte v)) \<and>
   VerifyCodeChallenge v (CreateCodeChallenge v)"
  by (simp add: CreateCodeChallenge_base64url VerifyCodeChallenge_def)



section \<open>Parsing an ID token\<close>

lemma Split_from_piece:
  "sep \<notin> set p \<Longrightarrow> Split_from cur (p @ sep # rest) sep = (cur @ p) # Split_from [] rest sep"
  by (induction p arbitrary: cur) auto

lemma Split_from_last: "sep \<notin> set p \<Longrightarrow> Split_from cur p sep = [cur @ p]"
  by (induction p arbitrary: cur) auto

lemma Split_three:
  assumes "CHR ''.'' \<notin> set h" "CHR ''.'' \<notin> set p" "CHR ''.'' \<notin> set s"
  shows "Split (h @ ''.'' @ p @ ''.'' @ s) CHR ''.'' = [h, p, s]"
  using assms by (simp add: Split_def Split_from_piece Split_from_last)

lemma ParseIDToken_three:
  assumes "CHR ''.'' \<notin> set h" "CHR ''.'' \<notin> set p" "CHR ''.'' \<notin> set s"
  shows "ParseIDToken d u (h @ ''.'' @ p @ ''.'' @ s) =
     (case base64URLDecode d p of
        Inl err \<Rightarrow> Inl (DecodePayloadFailed err)
      | Inr payload \<Rightarrow>
          (case u payload zero_claims of
             Inl err \<Rightarrow> Inl (ParseClaimsFailed err)
           | Inr claims \<Rightarrow>
               Inr (claims\<lparr>rawHeader := h, rawPayload := p, rawSignature := s\<rparr>)))"
  unfolding ParseIDToken_def Split_three [OF assms] by simp

lemma ParseIDToken_not_three:
  "length (Split idToken CHR ''.'') \<noteq> 3 \<Longrightarrow>
     ParseIDToken d u idToken = Inl (InvalidFormat (length (Split idToken CHR ''.'')))"
  by (auto simp: ParseIDToken_def Let_def split: list.splits)

lemma example_encoded:
  "base64url (map char_byte example_payload) =
     ''eyJpc3MiOiJodHRwczovL2V4YW1wbGUuY29tIiwic3ViIjoiMTIzIiwiYXVkIjoiY2xpZW50MSIsImV4cCI6OTk5OTk5OTk5OSwiaWF0IjoxMDAwMDAwMDAwfQ''"
  by code_simp

lemma example_decoded:
  "(case base64URLDecode DecodeString
      ''eyJpc3MiOiJodHRwczovL2V4YW1wbGUuY29tIiwic3ViIjoiMTIzIiwiYXVkIjoiY2xpZW50MSIsImV4cCI6OTk5OTk5OTk5OSwiaWF0IjoxMDAwMDAwMDAwfQ'' of
      Inl err \<Rightarrow> Inl (DecodePayloadFailed err)
    | Inr payload \<Rightarrow>
        (case json_Unmarshal payload zero_claims of
           Inl err \<Rightarrow> Inl (ParseClaimsFailed err)
         | Inr claims \<Rightarrow> Inr claims)) =
   Inr (zero_claims\<lparr>Issuer := ''https://example.com'', Subject := ''123'',
      Audience := ''client1'', Expiration := 9999999999, IssuedAt := 1000000000\<rparr>)"
  by code_simp

text \<open>
  C4. Whatever the two library functions do, \<open>ParseIDToken\<close> fails with the format
  error, carrying the number of segments, on every input that does not split at its dots
  into exactly three segments, and so on \<open>abc.def\<close>. On a token of three segments whose
  payload is the base64url encoding of the example claims object it succeeds, and the
  claims it returns have the subject \<open>123\<close> (and the issuer, audience and times of the
  object, and the three raw segments).
\<close>

theorem ParseIDToken_segments:
  "(length (Split idToken CHR ''.'') \<noteq> 3 \<longrightarrow>
      ParseIDToken d u idToken = Inl (InvalidFormat (length (Split idToken CHR ''.'')))) \<and>
   ParseIDToken d u ''abc.def'' = Inl (InvalidFormat 2) \<and>
   (CHR ''.'' \<notin> set hdr \<and> CHR ''.'' \<notin> set sig \<longrightarrow>
      ParseIDToken DecodeString json_Unmarshal
          (hdr @ ''.'' @ base64url (map char_byte example_payload) @ ''.'' @ sig) =
        Inr (zero_claims\<lparr>Issuer := ''https://example.com'', Subject := ''123'',
          Audience := ''client1'', Expiration := 9999999999, IssuedAt := 1000000000,
          rawHeader := hdr, rawPayload := base64url (map char_byte example_payload),
          rawSignature := sig\<rparr>) \<and>
      (\<exists>claims. ParseIDToken DecodeString json_Unmarshal
          (hdr @ ''.'' @ base64url (map char_byte example_payload) @ ''.'' @ sig) = Inr claims \<and>
        Subject claims = ''123''))"
proof -
  have two: "Split ''abc.def'' CHR ''.'' = [''abc'', ''def'']"
    by (simp add: Split_def)
  have a: "ParseIDToken d u ''abc.def'' = Inl (InvalidFormat 2)"
    using ParseIDToken_not_three [of "''abc.def''" d u] by (simp add: two)
  have b: "ParseIDToken DecodeString json_Unmarshal
          (hdr @ ''.'' @ base64url (map char_byte example_payload) @ ''.'' @ sig) =
        Inr (zero_claims\<lparr>Issuer := ''https://example.com'', Subject := ''123'',
          Audience := ''client1'', Expiration := 9999999999, IssuedAt := 1000000000,
          rawHeader := hdr, rawPayload := base64url (map char_byte example_payload),
          rawSignature := sig\<rparr>)"
    if "CHR ''.'' \<notin> set hdr" "CHR ''.'' \<notin> set sig"
  proof -
    have nd: "CHR ''.'' \<notin> set (base64url (map char_byte example_payload))"
      unfolding example_encoded by simp
    from example_decoded obtain payload where
      "base64URLDecode DecodeString (base64url (map char_byte example_payload)) = Inr payload"
      "json_Unmarshal payload zero_claims =
         Inr (zero_claims\<lparr>Issuer := ''https://example.com'', Subject := ''123'',
           Audience := ''client1'', Expiration := 9999999999, IssuedAt := 1000000000\<rparr>)"
      unfolding example_encoded by (auto split: sum.splits)
    then show ?thesis
      unfolding ParseIDToken_three [OF that(1) nd that(2)] by simp
  qed
  show ?thesis
    using a b ParseIDToken_not_three [of idToken d u] by (simp add: zero_claims_def)
qed

text \<open>The input \<open>abc.def\<close>, and the example payload between a header and a signature.\<close>

theorem ParseIDToken_segments_witness:
  "length (Split ''abc.def'' CHR ''.'') \<noteq> 3 \<and>
   ParseIDToken DecodeString json_Unmarshal ''abc.def'' = Inl (InvalidFormat 2) \<and>
   CHR ''.'' \<notin> set ''eyJhbGciOiJSUzI1NiIsInR5cCI6IkpXVCJ9'' \<and>
   CHR ''.'' \<notin> set ''signature'' \<and>
   (\<exists>claims. ParseIDToken DecodeString json_Unmarshal
      (''eyJhbGciOiJSUzI1NiIsInR5cCI6IkpXVCJ9'' @ ''.'' @
       ''eyJpc3MiOiJodHRwczovL2V4YW1wbGUuY29tIiwic3ViIjoiMTIzIiwiYXVkIjoiY2xpZW50MSIsImV4cCI6OTk5OTk5OTk5OSwiaWF0IjoxMDAwMDAwMDAwfQ''
       @ ''.'' @ ''signature'') = Inr claims \<and>
      Subject claims = ''123'')"
proof -
  have two: "length (Split ''abc.def'' CHR ''.'') \<noteq> 3"
    by (simp add: Split_def)
  have h: "CHR ''.'' \<notin> set ''eyJhbGciOiJSUzI1NiIsInR5cCI6IkpXVCJ9''" by simp
  have s: "CHR ''.'' \<notin> set ''signature''" by simp
  from ParseIDToken_segments
    [of "''abc.def''" DecodeString json_Unmarshal "''eyJhbGciOiJSUzI1NiIsInR5cCI6IkpXVCJ9''"
      "''signature''"] two h s
  have "ParseIDToken DecodeString json_Unmarshal ''abc.def'' = Inl (InvalidFormat 2)"
    and "\<exists>claims. ParseIDToken DecodeString json_Unmarshal
      (''eyJhbGciOiJSUzI1NiIsInR5cCI6IkpXVCJ9'' @ ''.'' @
       base64url (map char_byte example_payload) @ ''.'' @ ''signature'') = Inr claims \<and>
      Subject claims = ''123''"
    by blast+
  then show ?thesis
    unfolding example_encoded using two h s by blast
qed

text \<open>
  C10. \<open>base64URLDecode\<close> restores the padding by the length modulo 4 before it calls
  the decoder: \<open>==\<close> is appended to a segment of length 2 modulo 4 and \<open>=\<close> to one of
  length 3 modulo 4, and what is decoded is the padded segment with \<open>-\<close> and \<open>_\<close>
  rewritten. A segment of length 1 modulo 4 is refused as of invalid length whatever the
  decoder is, that is without decoding. \<open>ParseIDToken\<close> passes the middle segment of a
  three-segment token to it, so such a token fails with that error.
\<close>

theorem base64URLDecode_padding:
  "(length p mod 4 = 2 \<longrightarrow>
      base64URLDecode d p =
        (case d (ReplaceAll (ReplaceAll (p @ ''=='') CHR ''-'' ''+'') CHR ''_'' ''/'') of
           Inl e \<Rightarrow> Inl (Base64Error e) | Inr bs \<Rightarrow> Inr bs)) \<and>
   (length p mod 4 = 3 \<longrightarrow>
      base64URLDecode d p =
        (case d (ReplaceAll (ReplaceAll (p @ ''='') CHR ''-'' ''+'') CHR ''_'' ''/'') of
           Inl e \<Rightarrow> Inl (Base64Error e) | Inr bs \<Rightarrow> Inr bs)) \<and>
   (length p mod 4 = 1 \<longrightarrow> base64URLDecode d p = Inl InvalidLength) \<and>
   (CHR ''.'' \<notin> set h \<and> CHR ''.'' \<notin> set p \<and> CHR ''.'' \<notin> set s \<longrightarrow>
      ParseIDToken d u (h @ ''.'' @ p @ ''.'' @ s) =
        (case base64URLDecode d p of
           Inl err \<Rightarrow> Inl (DecodePayloadFailed err)
         | Inr payload \<Rightarrow>
             (case u payload zero_claims of
                Inl err \<Rightarrow> Inl (ParseClaimsFailed err)
              | Inr claims \<Rightarrow>
                  Inr (claims\<lparr>rawHeader := h, rawPayload := p, rawSignature := s\<rparr>)))) \<and>
   (length p mod 4 = 1 \<and> CHR ''.'' \<notin> set h \<and> CHR ''.'' \<notin> set p \<and> CHR ''.'' \<notin> set s \<longrightarrow>
      ParseIDToken d u (h @ ''.'' @ p @ ''.'' @ s) = Inl (DecodePayloadFailed InvalidLength))"
proof -
  have three: "ParseIDToken d u (h @ ''.'' @ p @ ''.'' @ s) =
        (case base64URLDecode d p of
           Inl err \<Rightarrow> Inl (DecodePayloadFailed err)
         | Inr payload \<Rightarrow>
             (case u payload zero_claims of
                Inl err \<Rightarrow> Inl (ParseClaimsFailed err)
              | Inr claims \<Rightarrow>
                  Inr (claims\<lparr>rawHeader := h, rawPayload := p, rawSignature := s\<rparr>)))"
    if "CHR ''.'' \<notin> set h" "CHR ''.'' \<notin> set p" "CHR ''.'' \<notin> set s"
    by (rule ParseIDToken_three [OF that])
  have one: "ParseIDToken d u (h @ ''.'' @ p @ ''.'' @ s) = Inl (DecodePayloadFailed InvalidLength)"
    if "length p mod 4 = 1" "CHR ''.'' \<notin> set h" "CHR ''.'' \<notin> set p" "CHR ''.'' \<notin> set s"
    unfolding ParseIDToken_three [OF that(2,3,4)]
    using that(1) by (simp add: base64URLDecode_def)
  have dec: "(length p mod 4 = 2 \<longrightarrow>
      base64URLDecode d p =
        (case d (ReplaceAll (ReplaceAll (p @ ''=='') CHR ''-'' ''+'') CHR ''_'' ''/'') of
           Inl e \<Rightarrow> Inl (Base64Error e) | Inr bs \<Rightarrow> Inr bs)) \<and>
   (length p mod 4 = 3 \<longrightarrow>
      base64URLDecode d p =
        (case d (ReplaceAll (ReplaceAll (p @ ''='') CHR ''-'' ''+'') CHR ''_'' ''/'') of
           Inl e \<Rightarrow> Inl (Base64Error e) | Inr bs \<Rightarrow> Inr bs)) \<and>
   (length p mod 4 = 1 \<longrightarrow> base64URLDecode d p = Inl InvalidLength)"
    by (simp add: base64URLDecode_def Let_def)
  from dec three one show ?thesis by blast
qed

text \<open>Segments of length 2, 3 and 5, with the decoder of the standard encoding.\<close>

theorem base64URLDecode_padding_witness:
  "length ''de'' mod 4 = 2 \<and> base64URLDecode DecodeString ''de'' = Inr [117] \<and>
   length ''a-_'' mod 4 = 3 \<and> base64URLDecode DecodeString ''a-_'' = Inr [107, 239] \<and>
   length ''defgh'' mod 4 = 1 \<and> base64URLDecode DecodeString ''defgh'' = Inl InvalidLength \<and>
   CHR ''.'' \<notin> set ''abc'' \<and> CHR ''.'' \<notin> set ''defgh'' \<and> CHR ''.'' \<notin> set ''x'' \<and>
   ParseIDToken DecodeString json_Unmarshal (''abc'' @ ''.'' @ ''defgh'' @ ''.'' @ ''x'') =
     Inl (DecodePayloadFailed InvalidLength)"
proof -
  have d2: "DecodeString (ReplaceAll (ReplaceAll (''de'' @ ''=='') CHR ''-'' ''+'') CHR ''_'' ''/'')
      = Inr [117]"
    by code_simp
  have d3: "DecodeString (ReplaceAll (ReplaceAll (''a-_'' @ ''='') CHR ''-'' ''+'') CHR ''_'' ''/'')
      = Inr [107, 239]"
    by code_simp
  have l2: "length ''de'' mod 4 = 2" and l3: "length ''a-_'' mod 4 = 3"
    and l1: "length ''defgh'' mod 4 = 1"
    by simp_all
  have nd: "CHR ''.'' \<notin> set ''abc''" "CHR ''.'' \<notin> set ''defgh''" "CHR ''.'' \<notin> set ''x''"
    by simp_all
  from base64URLDecode_padding [of "''de''" DecodeString "''abc''" "''x''" json_Unmarshal] l2 d2
  have a: "base64URLDecode DecodeString ''de'' = Inr [117]" by simp
  from base64URLDecode_padding [of "''a-_''" DecodeString "''abc''" "''x''" json_Unmarshal] l3 d3
  have b: "base64URLDecode DecodeString ''a-_'' = Inr [107, 239]" by simp
  from base64URLDecode_padding [of "''defgh''" DecodeString "''abc''" "''x''" json_Unmarshal] l1 nd
  have c: "base64URLDecode DecodeString ''defgh'' = Inl InvalidLength"
    "ParseIDToken DecodeString json_Unmarshal (''abc'' @ ''.'' @ ''defgh'' @ ''.'' @ ''x'') =
       Inl (DecodePayloadFailed InvalidLength)"
    by blast+
  from a b c l1 l2 l3 nd show ?thesis by blast
qed

section \<open>Claims validation\<close>

text \<open>
  C3. For every claims value, expected audience and clock reading, \<open>ValidateIDToken\<close>
  reports expiry exactly when the expiration lies strictly before now (an expiration equal
  to now passes); failing that, an issue time in the future exactly when issued-at lies
  strictly after now; failing that, an audience mismatch exactly when an expected audience
  is given and differs from the token's audience; and succeeds otherwise. The checks are
  made in this order.
\<close>

theorem ValidateIDToken_first_failure:
  "ValidateIDToken claims expectedAudience now =
     (if sint (Expiration claims) < sint now then Some (Expired (Expiration claims) now)
      else if sint (IssuedAt claims) > sint now then Some (IssuedInFuture (IssuedAt claims) now)
      else if expectedAudience \<noteq> [] \<and> expectedAudience \<noteq> Audience claims
        then Some AudienceMismatch
      else None)"
  by (auto simp: ValidateIDToken_def Let_def word_sless_alt)

section \<open>The handoff between handler and waiting caller\<close>

lemma handleCallback_chans_ok: "chans_ok s \<Longrightarrow> chans_ok (after (handleCallback q s))"
  by (auto simp: chans_ok_def handleCallback_def Let_def chan_send_def split: prod.splits)

lemma handleCallback_published:
  "length (published (after (handleCallback q s))) = Suc (length (published s))"
  by (auto simp: handleCallback_def Let_def chan_send_def published_def split: prod.splits)

lemma handle_all_chans_ok: "chans_ok s \<Longrightarrow> chans_ok (handle_all qs s)"
  by (induction qs arbitrary: s) (simp_all add: handleCallback_chans_ok)

lemma handle_all_published:
  "length (published (handle_all qs s)) = length (published s) + length qs"
  by (induction qs arbitrary: s) (simp_all add: handleCallback_published)

lemma New_chans_ok: "chans_ok (NewCallbackServer p pth)"
  by (simp add: chans_ok_def NewCallbackServer_def make_chan_def)

lemma New_published: "published (NewCallbackServer p pth) = []"
  by (simp add: published_def NewCallbackServer_def make_chan_def)

lemma resume_published: "published (resume who s) = published s"
  by (simp add: resume_def published_def split: option.splits sender.splits)

lemma chan_recv_pending:
  "chan_recv ch = Some (v, ch', who) \<Longrightarrow> Suc (pending ch') = pending ch"
  by (auto simp: chan_recv_def pending_def split: list.splits)

lemma published_pending:
  "length (published s) = pending (codeChan s) + pending (errChan s)"
  by (simp add: published_def pending_def)

lemma WaitForCode_takes_one:
  assumes "(r, s') \<in> set (WaitForCode ctx s)"
  shows "length (published s') = length (published s) - (case r of CtxError e \<Rightarrow> 0 | _ \<Rightarrow> 1)"
proof -
  from assms consider
      (code) c ch who where "chan_recv (codeChan s) = Some (c, ch, who)"
        "r = GotCode c" "s' = resume who (s\<lparr>codeChan := ch\<rparr>)"
    | (err) e ch who where "chan_recv (errChan s) = Some (e, ch, who)"
        "r = GotError e" "s' = resume who (s\<lparr>errChan := ch\<rparr>)"
    | (ctx) e where "r = CtxError e" "s' = s"
    by (cases "chan_recv (codeChan s)"; cases "chan_recv (errChan s)"; cases ctx)
      (auto simp: WaitForCode_def)
  then show ?thesis
  proof cases
    case code
    from chan_recv_pending [OF code(1)] code show ?thesis
      by (simp add: resume_published published_pending)
  next
    case err
    from chan_recv_pending [OF err(1)] err show ?thesis
      by (simp add: resume_published published_pending)
  next
    case ctx
    then show ?thesis by simp
  qed
qed

text \<open>
  C1, as the code has it. For every sequence of requests handled on a new server: each
  of the two channels buffers at most one outcome, and one call of \<open>WaitForCode\<close> takes
  at most one outcome (none when it returns the context's error). But the handler has no
  guard for the first request: every request hands one outcome of its own to a channel,
  so after \<open>n\<close> requests \<open>n\<close> outcomes have been published (buffered, or pending in a
  handler parked in its send).
\<close>

theorem handoff_every_request_publishes:
  "length (buf (codeChan (handle_all qs (NewCallbackServer p pth)))) \<le> 1 \<and>
   length (buf (errChan (handle_all qs (NewCallbackServer p pth)))) \<le> 1 \<and>
   length (published (handle_all qs (NewCallbackServer p pth))) = length qs \<and>
   (\<forall>(r, s') \<in> set (WaitForCode ctx (handle_all qs (NewCallbackServer p pth))).
      length (published s') = length qs - (case r of CtxError e \<Rightarrow> 0 | _ \<Rightarrow> 1))"
proof -
  let ?s = "handle_all qs (NewCallbackServer p pth)"
  have ok: "chans_ok ?s" by (rule handle_all_chans_ok [OF New_chans_ok])
  have n: "length (published ?s) = length qs"
    by (simp add: handle_all_published New_published)
  show ?thesis
    using ok n WaitForCode_takes_one [of _ _ ctx ?s] by (auto simp: chans_ok_def)
qed

text \<open>
  The theorem at two requests, a code and then a request without code, with the caller
  receiving the error: the code is still published afterwards.
\<close>

theorem handoff_every_request_publishes_witness:
  "(GotError NoAuthorizationCode,
      (NewCallbackServer 8080 ''/oauth/callback'')
        \<lparr>codeChan := \<lparr>buf = [''abc''], cap = 1, sendq = []\<rparr>\<rparr>)
     \<in> set (WaitForCode None
          (handle_all [[(''code'', ''abc'')], []] (NewCallbackServer 8080 ''/oauth/callback''))) \<and>
   length (published ((NewCallbackServer 8080 ''/oauth/callback'')
        \<lparr>codeChan := \<lparr>buf = [''abc''], cap = 1, sendq = []\<rparr>\<rparr>)) = 1"
proof -
  let ?s0 = "NewCallbackServer 8080 ''/oauth/callback''"
  let ?s' = "?s0\<lparr>codeChan := \<lparr>buf = [''abc''], cap = 1, sendq = []\<rparr>\<rparr>"
  have m: "(GotError NoAuthorizationCode, ?s')
      \<in> set (WaitForCode None (handle_all [[(''code'', ''abc'')], []] ?s0))"
    by (simp add: handleCallback_def NewCallbackServer_def make_chan_def chan_send_def
        Query_Get_def Let_def WaitForCode_def chan_recv_def resume_def)
  from handoff_every_request_publishes
    [of "[[(''code'', ''abc'')], []]" 8080 "''/oauth/callback''" None] m
  have "length (published ?s') = 2 - 1" by fastforce
  with m show ?thesis by simp
qed

text \<open>
  C1, as the claim states it, fails. A request with a code followed by a request
  without one leaves two outcomes published, the code and an error; and a second
  request with a code is left with no response written, its handler parked in the send.
\<close>

theorem handoff_second_outcome_counterexample:
  "published (handle_all [[(''code'', ''abc'')], []] (NewCallbackServer 8080 ''/oauth/callback''))
     = [CodeOutcome ''abc'', ErrOutcome NoAuthorizationCode] \<and>
   response (handleCallback [(''code'', ''xyz'')]
      (after (handleCallback [(''code'', ''abc'')] (NewCallbackServer 8080 ''/oauth/callback''))))
     = None \<and>
   \<not> returned (handleCallback [(''code'', ''xyz'')]
      (after (handleCallback [(''code'', ''abc'')] (NewCallbackServer 8080 ''/oauth/callback''))))"
  by (simp add: published_def handleCallback_def NewCallbackServer_def make_chan_def
      chan_send_def Query_Get_def Let_def)

section \<open>The branches of the handler\<close>

text \<open>
  C2. At every request without a \<open>code\<close> parameter, whatever its \<open>error\<close> and
  \<open>error_description\<close>, the handler answers 400 with the text
  \<open>No authorization code received\<close> and sends the error of that name: the outcome is
  never the provider's error.
\<close>

theorem handleCallback_without_code:
  "Query_Get q ''code'' = [] \<Longrightarrow>
     response (handleCallback q s) =
       Some (http_Error ''No authorization code received'' 400) \<and>
     sent (handleCallback q s) = ErrOutcome NoAuthorizationCode \<and>
     (\<forall>errMsg errDesc. sent (handleCallback q s) \<noteq> ErrOutcome (OAuthError errMsg errDesc))"
  by (simp add: handleCallback_def Let_def StatusBadRequest_def split: prod.splits)

text \<open>The provider's redirect \<open>?error=access_denied&error_description=...\<close>, on a new server.\<close>

theorem handleCallback_without_code_witness:
  "Query_Get [(''error'', ''access_denied''), (''error_description'', ''The user denied access'')]
      ''code'' = [] \<and>
   Query_Get [(''error'', ''access_denied''), (''error_description'', ''The user denied access'')]
      ''error'' = ''access_denied'' \<and>
   response (handleCallback
      [(''error'', ''access_denied''), (''error_description'', ''The user denied access'')]
      (NewCallbackServer 8080 ''/oauth/callback''))
     = Some \<lparr>status = 400, body = PlainText (''No authorization code received'' @ [CHR 0x0A])\<rparr> \<and>
   sent (handleCallback
      [(''error'', ''access_denied''), (''error_description'', ''The user denied access'')]
      (NewCallbackServer 8080 ''/oauth/callback''))
     = ErrOutcome NoAuthorizationCode \<and>
   map fst (WaitForCode None (after (handleCallback
      [(''error'', ''access_denied''), (''error_description'', ''The user denied access'')]
      (NewCallbackServer 8080 ''/oauth/callback''))))
     = [GotError NoAuthorizationCode]"
proof -
  let ?q = "[(''error'', ''access_denied''), (''error_description'', ''The user denied access'')]"
  have h: "Query_Get ?q ''code'' = []" by (simp add: Query_Get_def)
  have e: "Query_Get ?q ''error'' = ''access_denied''" by (simp add: Query_Get_def)
  have w: "map fst (WaitForCode None
      (after (handleCallback ?q (NewCallbackServer 8080 ''/oauth/callback''))))
      = [GotError NoAuthorizationCode]"
    by (simp add: handleCallback_def h Let_def NewCallbackServer_def make_chan_def chan_send_def
        WaitForCode_def chan_recv_def resume_def)
  from handleCallback_without_code [OF h, of "NewCallbackServer 8080 ''/oauth/callback''"] h e w
  show ?thesis by (simp add: http_Error_def)
qed

text \<open>
  C9. The handler looks at \<open>code\<close> before \<open>error\<close>. At every request with both
  parameters non-empty it answers 400 with the provider's error and description, sends
  that error on the error channel and leaves the code channel alone, so the code is
  dropped; and it sends a provider error only at a request whose \<open>code\<close> is non-empty.
\<close>

theorem handleCallback_code_before_error:
  "(Query_Get q ''code'' \<noteq> [] \<and> Query_Get q ''error'' \<noteq> [] \<longrightarrow>
     response (handleCallback q s) =
       Some (http_Error (''OAuth error: '' @ Query_Get q ''error'' @ '' - '' @
                          Query_Get q ''error_description'') 400) \<and>
     sent (handleCallback q s) =
       ErrOutcome (OAuthError (Query_Get q ''error'') (Query_Get q ''error_description'')) \<and>
     errChan (after (handleCallback q s)) =
       fst (chan_send Handler
             (OAuthError (Query_Get q ''error'') (Query_Get q ''error_description''))
             (errChan s)) \<and>
     codeChan (after (handleCallback q s)) = codeChan s) \<and>
   ((\<exists>errMsg errDesc. sent (handleCallback q s) = ErrOutcome (OAuthError errMsg errDesc)) \<longrightarrow>
     Query_Get q ''code'' \<noteq> [] \<and> Query_Get q ''error'' \<noteq> [])"
  by (auto simp: handleCallback_def Let_def StatusBadRequest_def split: prod.splits)

text \<open>A redirect carrying both a code and an error, on a new server: the caller gets the error.\<close>

theorem handleCallback_code_before_error_witness:
  "Query_Get [(''code'', ''abc123''), (''error'', ''access_denied''), (''error_description'', ''denied'')]
      ''code'' \<noteq> [] \<and>
   Query_Get [(''code'', ''abc123''), (''error'', ''access_denied''), (''error_description'', ''denied'')]
      ''error'' \<noteq> [] \<and>
   response (handleCallback
      [(''code'', ''abc123''), (''error'', ''access_denied''), (''error_description'', ''denied'')]
      (NewCallbackServer 8080 ''/oauth/callback''))
     = Some \<lparr>status = 400,
             body = PlainText (''OAuth error: access_denied - denied'' @ [CHR 0x0A])\<rparr> \<and>
   buf (errChan (after (handleCallback
      [(''code'', ''abc123''), (''error'', ''access_denied''), (''error_description'', ''denied'')]
      (NewCallbackServer 8080 ''/oauth/callback''))))
     = [OAuthError ''access_denied'' ''denied''] \<and>
   buf (codeChan (after (handleCallback
      [(''code'', ''abc123''), (''error'', ''access_denied''), (''error_description'', ''denied'')]
      (NewCallbackServer 8080 ''/oauth/callback''))))
     = []"
proof -
  let ?q = "[(''code'', ''abc123''), (''error'', ''access_denied''), (''error_description'', ''denied'')]"
  have c: "Query_Get ?q ''code'' = ''abc123''" by (simp add: Query_Get_def)
  have e: "Query_Get ?q ''error'' = ''access_denied''" by (simp add: Query_Get_def)
  have d: "Query_Get ?q ''error_description'' = ''denied''" by (simp add: Query_Get_def)
  from handleCallback_code_before_error [of ?q "NewCallbackServer 8080 ''/oauth/callback''"]
  show ?thesis
    by (simp add: c e d http_Error_def chan_send_def NewCallbackServer_def make_chan_def)
qed

section \<open>Stopping the server\<close>






text \<open>
  Not every server stops: when \<open>Serve\<close> has failed while an error was already waiting
  on the error channel, the goroutine of \<open>Start\<close> is parked in its send, and \<open>Stop\<close>
  waits for it without end.
\<close>

lemma Stop_blocks_on_parked_serve_goroutine:
  "fst (Stop None (Serve_fails ''accept failed''
      (handle_all [[]] (snd (Start None (NewCallbackServer 8080 ''/oauth/callback'')))))) = Blocked"
  by (simp add: Stop_def Serve_fails_def Start_def NewCallbackServer_def handleCallback_def
      Query_Get_def make_chan_def chan_send_def Let_def)




end
